theory Spec2Isabelle
  imports Main
begin

section \<open>JavaScript values used by the Timekeeper\<close>

text \<open>
  The Timekeeper component (\<^verbatim>\<open>src/website/src/admin/timekeeper/timekeeper.js\<close>) is
  dynamically typed: a lap is an object whose properties may be missing, and an array may
  have empty slots. The model keeps that: a property holds a \<open>jsval\<close>, where
  \<open>Undefined\<close> is what reading a missing property gives. Numbers are the integers
  (milliseconds and counters) together with \<open>NaN\<close>.
\<close>

datatype jsval = Undefined | Null | Bool bool | Number int | NaN

datatype error = TypeError | ApiError

text \<open>ToNumber of the language: the result is \<open>Number n\<close> or \<open>NaN\<close>.\<close>

fun ToNumber :: "jsval \<Rightarrow> jsval" where
  "ToNumber Undefined = NaN"
| "ToNumber Null = Number 0"
| "ToNumber (Bool b) = Number (if b then 1 else 0)"
| "ToNumber (Number n) = Number n"
| "ToNumber NaN = NaN"

fun ToBoolean :: "jsval \<Rightarrow> bool" where
  "ToBoolean Undefined = False"
| "ToBoolean Null = False"
| "ToBoolean (Bool b) = b"
| "ToBoolean (Number n) = (n \<noteq> 0)"
| "ToBoolean NaN = False"

text \<open>
  \<^verbatim>\<open>a + b\<close> on operands that are not strings or objects. The sum of two integers
  is the exact one. So is the binary64 sum of the source while the operands and the sum
  are safe integers, of magnitude below \<open>2 ^ 53\<close> (\<^verbatim>\<open>Number.isSafeInteger\<close>); beyond,
  the source rounds, and what is stated of a sum is stated of safe integers only.
\<close>

definition safe_integer :: "int \<Rightarrow> bool" where
  "safe_integer n = (\<bar>n\<bar> < 2 ^ 53)"

definition js_add :: "jsval \<Rightarrow> jsval \<Rightarrow> jsval" where
  "js_add a b =
     (case ToNumber a of
        Number x \<Rightarrow> (case ToNumber b of Number y \<Rightarrow> Number (x + y) | _ \<Rightarrow> NaN)
      | _ \<Rightarrow> NaN)"

text \<open>\<^verbatim>\<open>!a\<close>.\<close>

definition js_not :: "jsval \<Rightarrow> jsval" where
  "js_not a = Bool (\<not> ToBoolean a)"

text \<open>\<^verbatim>\<open>a === b\<close>: \<open>NaN\<close> is equal to nothing, itself included.\<close>

fun strict_eq :: "jsval \<Rightarrow> jsval \<Rightarrow> bool" where
  "strict_eq NaN b = False"
| "strict_eq a NaN = False"
| "strict_eq a b = (a = b)"

text \<open>
  \<^verbatim>\<open>Math.min\<close> of two arguments, and of a non-empty argument list (first argument and
  the rest). \<^verbatim>\<open>Math.min()\<close> of no argument is \<^verbatim>\<open>Infinity\<close>, which the number model
  leaves out: the source calls it under \<^verbatim>\<open>if (validLaps.length)\<close> only.
\<close>

definition min2 :: "jsval \<Rightarrow> jsval \<Rightarrow> jsval" where
  "min2 a b =
     (case ToNumber a of
        Number x \<Rightarrow> (case ToNumber b of Number y \<Rightarrow> Number (min x y) | _ \<Rightarrow> NaN)
      | _ \<Rightarrow> NaN)"

definition Math_min :: "jsval \<Rightarrow> jsval list \<Rightarrow> jsval" where
  "Math_min a as = foldl min2 (ToNumber a) as"

section \<open>Laps and arrays of laps\<close>

text \<open>
  A lap object \<^verbatim>\<open>{ id, time, resets, crashes, isValid }\<close>. The field \<^verbatim>\<open>id\<close> is
  named \<open>lap_id\<close> here.
\<close>

record lap =
  lap_id :: jsval
  time :: jsval
  resets :: jsval
  crashes :: jsval
  isValid :: jsval

text \<open>
  An array element: an empty slot (\<open>Hole\<close>, left by a write past the end), the value
  \<^verbatim>\<open>undefined\<close>, or an object.
\<close>

datatype 'a slot = Hole | Undef | Obj 'a

text \<open>\<^verbatim>\<open>[...xs]\<close>: spreading reads every index, so an empty slot becomes \<^verbatim>\<open>undefined\<close>.\<close>

fun spread_slot :: "'a slot \<Rightarrow> 'a slot" where
  "spread_slot Hole = Undef"
| "spread_slot Undef = Undef"
| "spread_slot (Obj a) = Obj a"

definition spread :: "'a slot list \<Rightarrow> 'a slot list" where
  "spread xs = map spread_slot xs"

text \<open>\<^verbatim>\<open>xs[i]\<close>: \<open>None\<close> is \<^verbatim>\<open>undefined\<close> (out of range, an empty slot, or stored).\<close>

definition index :: "'a slot list \<Rightarrow> nat \<Rightarrow> 'a option" where
  "index xs i =
     (if i < length xs then (case xs ! i of Obj a \<Rightarrow> Some a | _ \<Rightarrow> None) else None)"

text \<open>\<^verbatim>\<open>xs[i] = v\<close>: a write past the end extends the array, leaving empty slots between.\<close>

definition assign :: "'a slot list \<Rightarrow> nat \<Rightarrow> 'a slot \<Rightarrow> 'a slot list" where
  "assign xs i v =
     (if i < length xs then xs[i := v]
      else xs @ replicate (i - length xs) Hole @ [v])"

text \<open>\<^verbatim>\<open>{ ...o }\<close>: spreading \<^verbatim>\<open>undefined\<close> gives the object with no property.\<close>

definition no_properties :: lap where
  "no_properties =
     \<lparr>lap_id = Undefined, time = Undefined, resets = Undefined, crashes = Undefined,
      isValid = Undefined\<rparr>"

definition spread_object :: "lap option \<Rightarrow> lap" where
  "spread_object v = (case v of None \<Rightarrow> no_properties | Some l \<Rightarrow> l)"

section \<open>The Timekeeper component\<close>

text \<open>
  The state of the function component \<^verbatim>\<open>Timekeeper\<close>: its \<^verbatim>\<open>useState\<close> cells and
  the values of the two hooks \<^verbatim>\<open>useCounter(0)\<close> and \<^verbatim>\<open>useTimer(8)\<close>. A handler is
  modelled as one atomic step on the committed state: React re-renders after each
  discrete event, so the \<^verbatim>\<open>laps\<close> a handler closes over is the \<^verbatim>\<open>prevState\<close> its
  updater receives.
\<close>

record timekeeper =
  racerSelecorModalIsVisible :: bool
  endSessionModalIsVisible :: bool
  timerIsReset :: bool
  username :: "string option"
  currentLap :: lap
  laps :: "lap slot list"
  fastestLap :: "lap slot list"
  carResetCounter :: int
  timeInMilliseconds :: jsval
  lapTimerIsRunning :: bool

definition blankLap :: lap where
  "blankLap = \<lparr>lap_id = Null, time = Number 0, resets = Number 0, crashes = Number 0,
                isValid = Bool False\<rparr>"

definition initial :: timekeeper where
  "initial =
     \<lparr>racerSelecorModalIsVisible = True, endSessionModalIsVisible = False,
      timerIsReset = False, username = None, currentLap = blankLap, laps = [],
      fastestLap = [], carResetCounter = 0, timeInMilliseconds = Number 0,
      lapTimerIsRunning = False\<rparr>"

subsection \<open>The hooks\<close>

text \<open>
  Modelled from the spec: the hook \<^verbatim>\<open>useCounter\<close> (hooks/useCounter) is not among the
  sources. Spec 4.3: \<^verbatim>\<open>increment()\<close>, \<^verbatim>\<open>decrement()\<close> (must not go below zero),
  \<^verbatim>\<open>reset()\<close> sets to zero.
\<close>

definition incrementCarResetCounter :: "timekeeper \<Rightarrow> timekeeper" where
  "incrementCarResetCounter s = s\<lparr>carResetCounter := carResetCounter s + 1\<rparr>"

definition decrementCarResetCounter :: "timekeeper \<Rightarrow> timekeeper" where
  "decrementCarResetCounter s =
     s\<lparr>carResetCounter := (if 0 < carResetCounter s then carResetCounter s - 1 else 0)\<rparr>"

definition resetCarResetCounter :: "timekeeper \<Rightarrow> timekeeper" where
  "resetCarResetCounter s = s\<lparr>carResetCounter := 0\<rparr>"

text \<open>
  Modelled from the spec: the hook \<^verbatim>\<open>useTimer\<close> (hooks/useTimer) is not among the
  sources. Spec 4.2: \<^verbatim>\<open>start()\<close> resumes counting from the accumulated value,
  \<^verbatim>\<open>pause()\<close> halts and freezes it, \<^verbatim>\<open>reset(toMs=0)\<close> sets it to \<^verbatim>\<open>toMs\<close>.
  \<open>elapse d\<close> is the stopwatch counting \<open>d\<close> milliseconds, which it does while running.
\<close>

definition startLapTimer :: "timekeeper \<Rightarrow> timekeeper" where
  "startLapTimer s = s\<lparr>lapTimerIsRunning := True\<rparr>"

definition pauseLapTimer :: "timekeeper \<Rightarrow> timekeeper" where
  "pauseLapTimer s = s\<lparr>lapTimerIsRunning := False\<rparr>"

definition resetLapTimer :: "jsval \<Rightarrow> timekeeper \<Rightarrow> timekeeper" where
  "resetLapTimer toMs s = s\<lparr>timeInMilliseconds := toMs\<rparr>"

definition elapse :: "int \<Rightarrow> timekeeper \<Rightarrow> timekeeper" where
  "elapse d s =
     (if lapTimerIsRunning s
      then s\<lparr>timeInMilliseconds := js_add (timeInMilliseconds s) (Number d)\<rparr>
      else s)"

subsection \<open>The fastest-lap effect\<close>

text \<open>
  \<^verbatim>\<open>laps.filter((o) => o.isValid === true)\<close>: \<^verbatim>\<open>filter\<close> skips empty slots and calls
  the predicate on every other element; on \<^verbatim>\<open>undefined\<close> the predicate throws.
\<close>

fun filterValid :: "lap slot list \<Rightarrow> error + lap list" where
  "filterValid [] = Inr []"
| "filterValid (Hole # xs) = filterValid xs"
| "filterValid (Undef # xs) = Inl TypeError"
| "filterValid (Obj l # xs) =
     (case filterValid xs of
        Inl e \<Rightarrow> Inl e
      | Inr r \<Rightarrow> Inr (if strict_eq (isValid l) (Bool True) then l # r else r))"

text \<open>
  The body of the effect on \<^verbatim>\<open>[laps]\<close>; the result is the argument of
  \<^verbatim>\<open>SetFastestLap\<close>. \<^verbatim>\<open>find\<close> returns \<^verbatim>\<open>undefined\<close> when no element matches.
\<close>

definition fastestLapEffect :: "lap slot list \<Rightarrow> error + lap slot list" where
  "fastestLapEffect ls =
     (if length ls \<noteq> 0 then
        (case filterValid ls of
           Inl e \<Rightarrow> Inl e
         | Inr validLaps \<Rightarrow>
             (case validLaps of
                [] \<Rightarrow> Inr []
              | v # vs \<Rightarrow>
                  (let res = Math_min (time v) (map time vs);
                       obj = find (\<lambda>l. strict_eq (time l) res) validLaps
                   in Inr [case obj of None \<Rightarrow> Undef | Some l \<Rightarrow> Obj l])))
      else Inr [])"

subsection \<open>Handlers\<close>

definition endSessionHandler :: "timekeeper \<Rightarrow> timekeeper" where
  "endSessionHandler s = s\<lparr>endSessionModalIsVisible := True\<rparr>"

definition captureNewLapHandler :: "bool \<Rightarrow> timekeeper \<Rightarrow> timekeeper" where
  "captureNewLapHandler lapIsValid s =
     (let lapId = int (length (laps s));
          currentLapStats = (currentLap s)
            \<lparr>resets := Number (carResetCounter s), lap_id := Number lapId,
             time := timeInMilliseconds s, isValid := Bool lapIsValid\<rparr>;
          s1 = s\<lparr>laps := spread (laps s) @ [Obj currentLapStats]\<rparr>;
          s2 = s1\<lparr>currentLap := blankLap\<rparr>;
          s3 = resetCarResetCounter s2
      in resetLapTimer (Number 0) s3)"

text \<open>
  \<^verbatim>\<open>updatedLaps.pop()\<close> of an empty array is \<^verbatim>\<open>undefined\<close>, and reading
  \<^verbatim>\<open>lastLap.time\<close> of \<^verbatim>\<open>undefined\<close> throws a TypeError.
\<close>

definition undoFalseFinishHandler :: "timekeeper \<Rightarrow> error + timekeeper" where
  "undoFalseFinishHandler s =
     (let updatedLaps = spread (laps s)
      in if updatedLaps = [] then Inl TypeError
         else (case last updatedLaps of
                 Obj lastLap \<Rightarrow>
                   Inr ((resetLapTimer (js_add (timeInMilliseconds s) (time lastLap)) s)
                          \<lparr>laps := butlast updatedLaps\<rparr>)
               | _ \<Rightarrow> Inl TypeError))"

definition resetRace :: "timekeeper \<Rightarrow> timekeeper" where
  "resetRace s =
     (let s1 = s\<lparr>username := None\<rparr>;
          s2 = s1\<lparr>timerIsReset := True\<rparr>;
          s3 = pauseLapTimer s2;
          s4 = resetLapTimer (Number 0) s3;
          s5 = s4\<lparr>laps := []\<rparr>;
          s6 = s5\<lparr>currentLap := blankLap\<rparr>;
          s7 = s6\<lparr>endSessionModalIsVisible := False\<rparr>
      in s7\<lparr>racerSelecorModalIsVisible := True\<rparr>)"

definition submitRaceHandler :: "timekeeper \<Rightarrow> timekeeper" where
  "submitRaceHandler s = resetRace s"

definition abandonRaceHandler :: "timekeeper \<Rightarrow> timekeeper" where
  "abandonRaceHandler s = resetRace s"

definition raceIsOverHandler :: "timekeeper \<Rightarrow> timekeeper" where
  "raceIsOverHandler s = pauseLapTimer s"

definition raceStartedHandler :: "string \<Rightarrow> timekeeper \<Rightarrow> timekeeper" where
  "raceStartedHandler name s =
     s\<lparr>username := Some name, racerSelecorModalIsVisible := False, timerIsReset := False\<rparr>"

definition actionHandler :: "nat \<Rightarrow> timekeeper \<Rightarrow> timekeeper" where
  "actionHandler i s =
     (let lapsCopy = spread (laps s);
          updatedLap = spread_object (index (laps s) i);
          updatedLap = updatedLap\<lparr>isValid := js_not (isValid updatedLap)\<rparr>;
          lapsCopy = assign lapsCopy i (Obj updatedLap)
      in s\<lparr>laps := lapsCopy\<rparr>)"

definition raceHandler :: "timekeeper \<Rightarrow> timekeeper" where
  "raceHandler s =
     (if username s = None then pauseLapTimer (s\<lparr>racerSelecorModalIsVisible := True\<rparr>)
      else if lapTimerIsRunning s then pauseLapTimer s
      else startLapTimer s)"

subsection \<open>Buttons\<close>

text \<open>
  The DNF and Capture Lap buttons are rendered with \<^verbatim>\<open>disabled={!lapTimerIsRunning}\<close>:
  a click on a disabled button calls no handler.
\<close>

definition clickDNF :: "timekeeper \<Rightarrow> timekeeper" where
  "clickDNF s = (if \<not> lapTimerIsRunning s then s else captureNewLapHandler False s)"

definition clickCaptureLap :: "timekeeper \<Rightarrow> timekeeper" where
  "clickCaptureLap s = (if \<not> lapTimerIsRunning s then s else captureNewLapHandler True s)"

subsection \<open>The states of the session\<close>

text \<open>
  The component stores no state name. The names of the spec read off the stored state:
  no racer is \<open>AwaitingRacer\<close>, a racer and a running stopwatch is \<open>Racing\<close>, a racer
  and a halted stopwatch is \<open>Paused\<close>.
\<close>

datatype phase = AwaitingRacer | Racing | Paused

definition phase_of :: "timekeeper \<Rightarrow> phase" where
  "phase_of s =
     (if username s = None then AwaitingRacer
      else if lapTimerIsRunning s then Racing else Paused)"

subsection \<open>Dense lap ids\<close>

text \<open>\<^verbatim>\<open>laps[i].id == i\<close> at every index \<open>i\<close> of the array.\<close>

definition dense :: "lap slot list \<Rightarrow> bool" where
  "dense ls =
     list_all (\<lambda>i. case ls ! i of Obj l \<Rightarrow> lap_id l = Number (int i) | _ \<Rightarrow> False)
       [0..<length ls]"

subsection \<open>Operator actions while racing\<close>

datatype action = CaptureLap bool | UndoFalseFinish | CarReset | MinusOne | Wait int

fun act :: "action \<Rightarrow> timekeeper \<Rightarrow> error + timekeeper" where
  "act (CaptureLap v) s = Inr (captureNewLapHandler v s)"
| "act UndoFalseFinish s = undoFalseFinishHandler s"
| "act CarReset s = Inr (incrementCarResetCounter s)"
| "act MinusOne s = Inr (decrementCarResetCounter s)"
| "act (Wait d) s = Inr (elapse d s)"

text \<open>A sequence of actions, stopping at the first one that throws.\<close>

fun acts :: "action list \<Rightarrow> timekeeper \<Rightarrow> error + timekeeper" where
  "acts [] s = Inr s"
| "acts (a # as) s = (case act a s of Inl e \<Rightarrow> Inl e | Inr s' \<Rightarrow> acts as s')"

text \<open>The time of a lap in milliseconds, when it is a number.\<close>

definition millis :: "lap \<Rightarrow> int" where
  "millis l = (case time l of Number t \<Rightarrow> t | _ \<Rightarrow> 0)"

section \<open>The upload modal and its status poll\<close>

text \<open>
  The class component \<^verbatim>\<open>CarModelUploadModal\<close> of \<^verbatim>\<open>src/website/src/home.js\<close>.
  What the component shows or receives is a string, a paragraph element, or nothing (a
  response without a body: \<^verbatim>\<open>undefined\<close>).
\<close>

datatype content = Text string | Paragraph string | Missing

record car =
  InstanceId :: string
  ComputerName :: string

record model =
  key :: string

text \<open>
  The fields of \<^verbatim>\<open>this.state\<close> (\<^verbatim>\<open>open\<close> is named \<open>openModal\<close>), the instance
  field \<^verbatim>\<open>this.interval\<close>, and the part of the browser the component acts on: the
  interval timers that are live (by handle), the next handle \<^verbatim>\<open>setInterval\<close> gives
  out, the status requests awaiting their response, and the number of status requests
  sent so far.
\<close>

record uploader =
  openModal :: bool
  resultOpen :: bool
  result :: content
  CurrentInstanceId :: string
  CommandId :: content
  uploadStatus :: content
  count :: nat
  delay :: nat
  interval :: "nat option"
  timers :: "nat list"
  nextTimer :: nat
  pending :: "(string \<times> content) list"
  queries :: nat

definition constructed :: uploader where
  "constructed =
     \<lparr>openModal = False, resultOpen = False, result = Text [], CurrentInstanceId = [],
      CommandId = Text [], uploadStatus = Text [], count = 0, delay = 1000,
      interval = None, timers = [], nextTimer = 0, pending = [], queries = 0\<rparr>"

definition componentDidMount :: "uploader \<Rightarrow> uploader" where
  "componentDidMount u = u\<lparr>result := Paragraph ''Mounted''\<rparr>"

text \<open>
  \<^verbatim>\<open>this.interval = setInterval(this.tick, this.state.delay)\<close>: a new live timer, its
  handle stored in \<^verbatim>\<open>this.interval\<close>. \<^verbatim>\<open>clearInterval(h)\<close> ends the timer with
  handle \<open>h\<close>, and does nothing for \<^verbatim>\<open>undefined\<close>.
\<close>

definition setInterval :: "uploader \<Rightarrow> uploader" where
  "setInterval u =
     u\<lparr>interval := Some (nextTimer u), timers := timers u @ [nextTimer u],
       nextTimer := Suc (nextTimer u)\<rparr>"

definition clearInterval :: "nat option \<Rightarrow> uploader \<Rightarrow> uploader" where
  "clearInterval h u =
     (case h of None \<Rightarrow> u | Some i \<Rightarrow> u\<lparr>timers := removeAll i (timers u)\<rparr>)"

text \<open>
  \<^verbatim>\<open>uploadModelToCar\<close>. The third argument is how \<^verbatim>\<open>await API.post(...)\<close> ends:
  \<open>Inl\<close> when the promise rejects, and then the function rejects at that line; \<open>Inr\<close>
  with the response otherwise. The result is what the function returns and the state it
  leaves.
\<close>

definition uploadModelToCar ::
  "car \<Rightarrow> model \<Rightarrow> error + content \<Rightarrow> uploader \<Rightarrow> (error + content) \<times> uploader" where
  "uploadModelToCar c m posted u =
     (case posted of
        Inl e \<Rightarrow> (Inl e, u)
      | Inr response \<Rightarrow>
          (let u1 = u\<lparr>result := response\<rparr>;
               u2 = u1\<lparr>CommandId := response\<rparr>;
               u3 = u2\<lparr>CurrentInstanceId := InstanceId c\<rparr>;
               u4 = u3\<lparr>uploadStatus := Text ''InProgress''\<rparr>
           in (Inr response, setInterval u4)))"

text \<open>
  \<^verbatim>\<open>uploadModelToCarStatus\<close> in its two halves: up to the \<^verbatim>\<open>await\<close> it sends the
  request; when the request settles, the rest runs (nothing of it when the promise
  rejects). Requests settle in the order they were sent.
\<close>

definition statusRequest :: "string \<Rightarrow> content \<Rightarrow> uploader \<Rightarrow> uploader" where
  "statusRequest iid cid u =
     u\<lparr>pending := pending u @ [(iid, cid)], queries := Suc (queries u)\<rparr>"

definition statusSettled :: "error + content \<Rightarrow> uploader \<Rightarrow> uploader" where
  "statusSettled posted u =
     (case pending u of
        [] \<Rightarrow> u
      | p # ps \<Rightarrow>
          (case posted of
             Inl e \<Rightarrow> u\<lparr>pending := ps\<rparr>
           | Inr response \<Rightarrow>
               (let u1 = u\<lparr>pending := ps\<rparr>;
                    u2 = u1\<lparr>result := response\<rparr>
                in u2\<lparr>uploadStatus := response\<rparr>)))"

definition componentWillUnmount :: "uploader \<Rightarrow> uploader" where
  "componentWillUnmount u = clearInterval (interval u) u"

definition tick :: "uploader \<Rightarrow> uploader" where
  "tick u =
     (let u1 = u\<lparr>count := count u + 1\<rparr>;
          u2 = statusRequest (CurrentInstanceId u1) (CommandId u1) u1
      in if uploadStatus u2 \<noteq> Text ''InProgress'' then clearInterval (interval u2) u2
         else u2)"

text \<open>The browser runs the callback of the timer with handle \<open>h\<close> only while it is live.\<close>

definition timerFires :: "nat \<Rightarrow> uploader \<Rightarrow> uploader" where
  "timerFires h u = (if h \<in> set (timers u) then tick u else u)"

subsection \<open>Buttons of the two modals\<close>

definition uploadClicked ::
  "car \<Rightarrow> model \<Rightarrow> error + content \<Rightarrow> uploader \<Rightarrow> (error + content) \<times> uploader" where
  "uploadClicked c m posted u =
     (let u1 = u\<lparr>result := Paragraph ''Uploading...''\<rparr>;
          u2 = u1\<lparr>openModal := False\<rparr>;
          u3 = u2\<lparr>resultOpen := True\<rparr>
      in uploadModelToCar c m posted u3)"

definition closeResultClicked :: "uploader \<Rightarrow> uploader" where
  "closeResultClicked u =
     (let u1 = u\<lparr>resultOpen := False\<rparr>;
          u2 = u1\<lparr>result := Text []\<rparr>
      in clearInterval (interval u2) u2)"

definition refreshClicked :: "uploader \<Rightarrow> uploader" where
  "refreshClicked u = statusRequest (CurrentInstanceId u) (CommandId u) u"

subsection \<open>The poll over time\<close>

text \<open>
  The responses of the server are given as a list. \<open>answer\<close> settles the requests
  awaiting a response, in order, with the next responses of the list. \<open>poll n\<close> lets
  \<open>n\<close> periods of \<^verbatim>\<open>delay\<close> milliseconds pass: in each, every live timer fires, and
  then the requests sent are answered.
\<close>

fun answer :: "content list \<Rightarrow> uploader \<Rightarrow> content list \<times> uploader" where
  "answer [] u = ([], u)"
| "answer (r # rs) u =
     (if pending u = [] then (r # rs, u) else answer rs (statusSettled (Inr r) u))"

fun poll :: "nat \<Rightarrow> content list \<Rightarrow> uploader \<Rightarrow> uploader" where
  "poll 0 rs u = u"
| "poll (Suc n) rs u =
     (let u1 = fold timerFires (timers u) u;
          (rs', u2) = answer rs u1
      in poll n rs' u2)"

section \<open>Concrete sessions and uploads\<close>

text \<open>A captured lap with the given id, time in milliseconds and validity, no reset.\<close>

definition lapOf :: "int \<Rightarrow> int \<Rightarrow> bool \<Rightarrow> lap" where
  "lapOf i t v =
     \<lparr>lap_id = Number i, time = Number t, resets = Number 0, crashes = Number 0,
      isValid = Bool v\<rparr>"

text \<open>
  A session that was paused in the middle of a lap: a racer is selected, the race is
  started, the car is reset twice, and the race is paused.
\<close>

definition paused :: timekeeper where
  "paused = raceHandler (incrementCarResetCounter (incrementCarResetCounter
              (raceHandler (raceStartedHandler ''racer'' initial))))"

text \<open>
  A race under way: a racer is selected, the race is started, a first lap is captured
  after 5000 ms, and the stopwatch has run for 1234 ms since.
\<close>

definition racing :: timekeeper where
  "racing =
     elapse 1234 (captureNewLapHandler True (elapse 5000
       (raceHandler (raceStartedHandler ''racer'' initial))))"

definition aCar :: car where
  "aCar = \<lparr>InstanceId = ''i-01'', ComputerName = ''car-1''\<rparr>"

definition aModel :: model where
  "aModel = \<lparr>key = ''models/fast''\<rparr>"

text \<open>The component after an upload to \<open>aCar\<close> was started and answered with a command id.\<close>

definition polling :: uploader where
  "polling =
     snd (uploadClicked aCar aModel (Inr (Text ''cmd-1'')) (componentDidMount constructed))"

definition responses :: "content list" where
  "responses = [Text ''InProgress'', Text ''InProgress'', Text ''Success'']"

section \<open>Dense lap ids\<close>

lemma dense_iff:
  "dense ls \<longleftrightarrow> (\<forall>i<length ls. \<exists>l. ls ! i = Obj l \<and> lap_id l = Number (int i))"
proof -
  have "(case x of Obj l \<Rightarrow> lap_id l = Number (int i) | _ \<Rightarrow> False) \<longleftrightarrow>
        (\<exists>l. x = Obj l \<and> lap_id l = Number (int i))" for x :: "lap slot" and i
    by (cases x) auto
  then show ?thesis by (auto simp: dense_def list_all_iff)
qed

text \<open>An array with dense ids has no empty slot, so spreading copies it as it is.\<close>

lemma dense_spread: "dense ls \<Longrightarrow> spread ls = ls"
  unfolding spread_def dense_iff
  by (rule map_idI) (metis in_set_conv_nth spread_slot.simps(3))

lemma dense_snoc:
  "dense ls \<Longrightarrow> lap_id l = Number (int (length ls)) \<Longrightarrow> dense (ls @ [Obj l])"
  by (auto simp: dense_iff nth_append less_Suc_eq)

lemma dense_butlast: "dense ls \<Longrightarrow> dense (butlast ls)"
  by (simp add: dense_iff nth_butlast)

lemma laps_capture:
  "laps (captureNewLapHandler v s) =
     spread (laps s) @ [Obj ((currentLap s)
        \<lparr>resets := Number (carResetCounter s), lap_id := Number (int (length (laps s))),
         time := timeInMilliseconds s, isValid := Bool v\<rparr>)]"
  by (simp add: captureNewLapHandler_def Let_def resetLapTimer_def resetCarResetCounter_def)

lemma length_capture: "length (laps (captureNewLapHandler v s)) = Suc (length (laps s))"
  by (simp add: laps_capture spread_def)

lemma dense_capture: "dense (laps s) \<Longrightarrow> dense (laps (captureNewLapHandler v s))"
  by (simp add: laps_capture dense_spread dense_snoc)

lemma laps_undo:
  "undoFalseFinishHandler s = Inr s' \<Longrightarrow> laps s' = butlast (spread (laps s))"
  by (auto simp: undoFalseFinishHandler_def Let_def resetLapTimer_def
      split: if_splits slot.splits)

lemma dense_undo:
  "dense (laps s) \<Longrightarrow> undoFalseFinishHandler s = Inr s' \<Longrightarrow> dense (laps s')"
  by (simp add: laps_undo dense_spread dense_butlast)

lemma dense_act: "dense (laps s) \<Longrightarrow> act a s = Inr s' \<Longrightarrow> dense (laps s')"
  by (cases a)
     (auto simp: dense_capture dense_undo incrementCarResetCounter_def
        decrementCarResetCounter_def elapse_def)

lemma dense_acts: "dense (laps s) \<Longrightarrow> acts as s = Inr s' \<Longrightarrow> dense (laps s')"
proof (induction as arbitrary: s)
  case Nil
  then show ?case by simp
next
  case (Cons a as)
  then show ?case by (auto split: sum.splits dest: dense_act)
qed

text \<open>
  C1. Start from an empty lap array and let the operator capture laps (valid or DNF),
  undo the last capture, count car resets and let time pass, in any order, no undo
  hitting an empty array (such a run ends in \<open>Inr\<close>). Then every lap of the array has
  its index as id, and one more capture keeps that and makes the array longer by exactly
  one.
\<close>

theorem lap_ids_dense:
  assumes "laps s0 = []" and "acts as s0 = Inr s"
  shows "dense (laps s) \<and>
         dense (laps (captureNewLapHandler v s)) \<and>
         length (laps (captureNewLapHandler v s)) = length (laps s) + 1"
proof -
  have "dense (laps s0)" using assms(1) by (simp add: dense_def)
  then have "dense (laps s)" using assms(2) by (rule dense_acts)
  then show ?thesis by (simp add: dense_capture length_capture)
qed

theorem lap_ids_dense_witness:
  "laps initial = [] \<and>
   (case acts [CaptureLap True, Wait 5, CarReset, CaptureLap False, UndoFalseFinish] initial of
      Inl e \<Rightarrow> False
    | Inr s \<Rightarrow> dense (laps s) \<and> dense (laps (captureNewLapHandler True s)) \<and>
        length (laps (captureNewLapHandler True s)) = length (laps s) + 1)"
proof -
  let ?as = "[CaptureLap True, Wait 5, CarReset, CaptureLap False, UndoFalseFinish]"
  have e: "laps initial = []" by (simp add: initial_def)
  obtain s where r: "acts ?as initial = Inr s"
    by (simp add: initial_def captureNewLapHandler_def undoFalseFinishHandler_def
        resetLapTimer_def resetCarResetCounter_def incrementCarResetCounter_def
        elapse_def spread_def Let_def)
  show ?thesis using e r lap_ids_dense [OF e r, of True] by simp
qed

section \<open>The fastest lap\<close>

lemma strict_eq_True: "strict_eq a (Bool True) = (a = Bool True)"
  by (cases a) auto

lemma strict_eq_Number: "strict_eq a (Number m) = (a = Number m)"
  by (cases a) auto

lemma filterValid_Obj:
  "filterValid (map Obj ls) = Inr (filter (\<lambda>l. isValid l = Bool True) ls)"
  by (induction ls) (simp_all add: strict_eq_True)

lemma find_filter: "find Q (filter P xs) = find (\<lambda>x. P x \<and> Q x) xs"
  by (induction xs) auto

lemma foldl_min2: "foldl min2 (Number a) (map Number ts) = Number (fold min ts a)"
  by (induction ts arbitrary: a) (simp_all add: min2_def min.commute)

lemma Math_min_Number: "Math_min (Number t) (map Number ts) = Number (Min (set (t # ts)))"
  by (simp only: Math_min_def ToNumber.simps foldl_min2 Min.set_eq_fold)

lemma fastest_none:
  "\<forall>l\<in>set ls. isValid l \<noteq> Bool True \<Longrightarrow> fastestLapEffect (map Obj ls) = Inr []"
  by (simp add: fastestLapEffect_def filterValid_Obj filter_False)

text \<open>
  With a valid lap in the array, the effect stores the lap at some index \<open>i\<close>: it is
  valid, no valid lap is faster, and every valid lap before it is slower.
\<close>

lemma fastest_some:
  assumes num: "\<forall>l\<in>set ls. isValid l = Bool True \<longrightarrow> (\<exists>t. time l = Number t)"
    and ex: "\<exists>l\<in>set ls. isValid l = Bool True"
  shows "\<exists>i t. i < length ls \<and> fastestLapEffect (map Obj ls) = Inr [Obj (ls ! i)] \<and>
           isValid (ls ! i) = Bool True \<and> time (ls ! i) = Number t \<and>
           (\<forall>j u. j < length ls \<and> isValid (ls ! j) = Bool True \<and> time (ls ! j) = Number u
               \<longrightarrow> t \<le> u \<and> (j < i \<longrightarrow> t < u))"
proof -
  define vl where "vl = filter (\<lambda>l. isValid l = Bool True) ls"
  have tm: "time l = Number (millis l)" if "l \<in> set vl" for l
    using that num by (auto simp: vl_def millis_def)
  from ex obtain v vs where vl: "vl = v # vs"
    by (cases vl) (auto simp: vl_def filter_empty_conv)
  define m where "m = Min (set (map millis vl))"
  have "map time vs = map Number (map millis vs)"
    using tm by (simp add: vl)
  moreover have "time v = Number (millis v)"
    using tm [of v] by (simp add: vl)
  ultimately have "Math_min (time v) (map time vs) = Number (Min (set (millis v # map millis vs)))"
    by (simp only: Math_min_Number)
  then have res: "Math_min (time v) (map time vs) = Number m"
    by (simp add: vl m_def)
  have "m \<in> set (map millis vl)"
    unfolding m_def by (rule Min_in) (simp_all add: vl)
  then obtain l0 where l0: "l0 \<in> set vl" "millis l0 = m" by auto
  then have "l0 \<in> set ls \<and> isValid l0 = Bool True \<and> time l0 = Number m"
    using tm [of l0] by (simp add: vl_def)
  then have "find (\<lambda>l. isValid l = Bool True \<and> time l = Number m) ls \<noteq> None"
    by (auto simp: find_None_iff)
  then obtain x where fx: "find (\<lambda>l. isValid l = Bool True \<and> time l = Number m) ls = Some x"
    by auto
  then obtain i where i: "i < length ls" "isValid (ls ! i) = Bool True"
    "time (ls ! i) = Number m" "x = ls ! i"
    "\<forall>j<i. \<not> (isValid (ls ! j) = Bool True \<and> time (ls ! j) = Number m)"
    by (auto simp: find_Some_iff)
  have fv: "filterValid (map Obj ls) = Inr (v # vs)"
    using vl by (simp add: filterValid_Obj vl_def)
  have ne: "ls \<noteq> []" using ex by auto
  have ff: "find (\<lambda>l. strict_eq (time l) (Number m)) (v # vs) = Some (ls ! i)"
    using fx i(4) by (simp only: vl [symmetric] vl_def find_filter strict_eq_Number)
  have eff: "fastestLapEffect (map Obj ls) = Inr [Obj (ls ! i)]"
    using ne by (simp add: fastestLapEffect_def fv res ff Let_def del: find.simps)
  have le: "m \<le> u" if "j < length ls" "isValid (ls ! j) = Bool True" "time (ls ! j) = Number u"
    for j u
  proof -
    have "ls ! j \<in> set vl" using that by (simp add: vl_def)
    moreover have "millis (ls ! j) = u" using that by (simp add: millis_def)
    ultimately have "u \<in> set (map millis vl)" by force
    then show ?thesis unfolding m_def by (intro Min_le) simp_all
  qed
  have "\<forall>j u. j < length ls \<and> isValid (ls ! j) = Bool True \<and> time (ls ! j) = Number u
               \<longrightarrow> m \<le> u \<and> (j < i \<longrightarrow> m < u)"
    using le i(5) by (metis order_le_less)
  with i eff show ?thesis by blast
qed

lemma fastest_example:
  "fastestLapEffect [Obj (lapOf 0 1000 True), Obj (lapOf 1 900 False), Obj (lapOf 2 1100 True)]
     = Inr [Obj (lapOf 0 1000 True)]"
  by (simp add: fastestLapEffect_def lapOf_def Math_min_def min2_def)

text \<open>
  C2. Take an array of lap objects in which the time of every valid lap is a number.
  If no lap is valid, the fastest lap is empty. Otherwise it is the one lap at an index
  \<open>i\<close> such that the lap is valid, its time is the least among the valid laps, and
  every valid lap before it has a greater time (it is the first with the least time).
  For the laps of 1000 ms (valid), 900 ms (invalid) and 1100 ms (valid) it is the lap
  of 1000 ms.
\<close>

theorem fastest_lap:
  assumes "\<forall>l\<in>set ls. isValid l = Bool True \<longrightarrow> (\<exists>t. time l = Number t)"
  shows "((\<forall>l\<in>set ls. isValid l \<noteq> Bool True) \<longrightarrow> fastestLapEffect (map Obj ls) = Inr []) \<and>
         ((\<exists>l\<in>set ls. isValid l = Bool True) \<longrightarrow>
            (\<exists>i t. i < length ls \<and> fastestLapEffect (map Obj ls) = Inr [Obj (ls ! i)] \<and>
               isValid (ls ! i) = Bool True \<and> time (ls ! i) = Number t \<and>
               (\<forall>j u. j < length ls \<and> isValid (ls ! j) = Bool True \<and>
                   time (ls ! j) = Number u \<longrightarrow> t \<le> u \<and> (j < i \<longrightarrow> t < u)))) \<and>
         fastestLapEffect
           [Obj (lapOf 0 1000 True), Obj (lapOf 1 900 False), Obj (lapOf 2 1100 True)]
           = Inr [Obj (lapOf 0 1000 True)]"
  using fastest_none [of ls] fastest_some [OF assms] fastest_example by blast

text \<open>
  Two valid laps of 1000 ms around an invalid lap of 900 ms: the first one is stored.
  Two invalid laps: nothing is stored.
\<close>

theorem fastest_lap_witness:
  "fastestLapEffect (map Obj [lapOf 0 1000 True, lapOf 1 900 False, lapOf 2 1000 True])
     = Inr [Obj (lapOf 0 1000 True)] \<and>
   fastestLapEffect (map Obj [lapOf 0 1000 False, lapOf 1 900 False]) = Inr []"
proof -
  let ?ls = "[lapOf 0 1000 True, lapOf 1 900 False, lapOf 2 1000 True]"
  let ?ms = "[lapOf 0 1000 False, lapOf 1 900 False]"
  have h: "\<forall>l\<in>set ?ls. isValid l = Bool True \<longrightarrow> (\<exists>t. time l = Number t)"
    by (simp add: lapOf_def)
  have k: "\<forall>l\<in>set ?ms. isValid l = Bool True \<longrightarrow> (\<exists>t. time l = Number t)"
    by (simp add: lapOf_def)
  have v: "\<exists>l\<in>set ?ls. isValid l = Bool True" by (simp add: lapOf_def)
  have n: "\<forall>l\<in>set ?ms. isValid l \<noteq> Bool True" by (simp add: lapOf_def)
  from fastest_lap [OF h] v obtain i t where i: "i < length ?ls"
    "fastestLapEffect (map Obj ?ls) = Inr [Obj (?ls ! i)]"
    "time (?ls ! i) = Number t" "isValid (?ls ! i) = Bool True"
    "\<forall>j u. j < length ?ls \<and> isValid (?ls ! j) = Bool True \<and> time (?ls ! j) = Number u
        \<longrightarrow> t \<le> u \<and> (j < i \<longrightarrow> t < u)"
    by blast
  have "i = 0"
  proof (rule ccontr)
    assume "i \<noteq> 0"
    then have "t < 1000" using i(5) [rule_format, of 0 1000] by (simp add: lapOf_def)
    moreover have "1000 \<le> t"
      using i(1,3,4) by (auto simp: lapOf_def less_Suc_eq numeral_3_eq_3)
    ultimately show False by simp
  qed
  with i(2) have "fastestLapEffect (map Obj ?ls) = Inr [Obj (lapOf 0 1000 True)]" by simp
  moreover have "fastestLapEffect (map Obj ?ms) = Inr []"
    using fastest_lap [OF k] n by blast
  ultimately show ?thesis by blast
qed

section \<open>Undoing a capture\<close>

lemma spread_slot_idem: "spread_slot (spread_slot x) = spread_slot x"
  by (cases x) simp_all

lemma racing_eq:
  "racing =
     \<lparr>racerSelecorModalIsVisible = False, endSessionModalIsVisible = False,
      timerIsReset = False, username = Some ''racer'', currentLap = blankLap,
      laps = [Obj (lapOf 0 5000 True)], fastestLap = [], carResetCounter = 0,
      timeInMilliseconds = Number 1234, lapTimerIsRunning = True\<rparr>"
  by (simp add: racing_def elapse_def captureNewLapHandler_def raceHandler_def
      raceStartedHandler_def initial_def startLapTimer_def resetLapTimer_def
      resetCarResetCounter_def js_add_def spread_def lapOf_def blankLap_def Let_def)

text \<open>
  C3. While the stopwatch runs and shows \<open>t\<close> milliseconds, capture a lap (valid or
  DNF), let \<open>d\<close> more milliseconds pass, and undo the capture, where \<open>t\<close>, \<open>d\<close> and
  \<open>t + d\<close> are safe integers (so that the sum the undo computes is exact). Before the
  undo, the last lap has the time \<open>t\<close> and the stopwatch shows \<open>d\<close>. The undo
  succeeds, the lap array has its length of before the capture (it is the spread copy
  of the array of before), and the stopwatch shows \<open>t + d\<close>: the time of the removed
  lap plus the time elapsed since the capture, which is \<open>t\<close> again for an undo right
  after the capture.
\<close>

theorem undo_restores:
  assumes "lapTimerIsRunning s" and "timeInMilliseconds s = Number t"
    and "safe_integer t" and "safe_integer d" and "safe_integer (t + d)"
  shows "\<exists>s' l. undoFalseFinishHandler (elapse d (captureNewLapHandler v s)) = Inr s' \<and>
           last (laps (elapse d (captureNewLapHandler v s))) = Obj l \<and>
           time l = Number t \<and>
           timeInMilliseconds (elapse d (captureNewLapHandler v s)) = Number d \<and>
           length (laps s') = length (laps s) \<and>
           laps s' = spread (laps s) \<and>
           timeInMilliseconds s' = Number (t + d)"
  using assms(1,2)
  by (simp add: undoFalseFinishHandler_def elapse_def captureNewLapHandler_def
      resetLapTimer_def resetCarResetCounter_def Let_def spread_def js_add_def
      comp_def spread_slot_idem)

text \<open>
  In the race under way, with one lap of 5000 ms captured and the stopwatch at 1234 ms:
  a DNF is captured, 40 ms pass (the stopwatch shows 40), and the undo leaves the one
  lap of before and the stopwatch at 1274 ms.
\<close>

theorem undo_restores_witness:
  "lapTimerIsRunning racing \<and> timeInMilliseconds racing = Number 1234 \<and>
   laps racing = [Obj (lapOf 0 5000 True)] \<and>
   safe_integer 1234 \<and> safe_integer 40 \<and> safe_integer (1234 + 40) \<and>
   length (laps (captureNewLapHandler False racing)) = 2 \<and>
   timeInMilliseconds (elapse 40 (captureNewLapHandler False racing)) = Number 40 \<and>
   (case undoFalseFinishHandler (elapse 40 (captureNewLapHandler False racing)) of
      Inl e \<Rightarrow> False
    | Inr s' \<Rightarrow> laps s' = [Obj (lapOf 0 5000 True)] \<and> timeInMilliseconds s' = Number 1274)"
proof -
  have r: "lapTimerIsRunning racing" by (simp add: racing_eq)
  have t: "timeInMilliseconds racing = Number 1234" by (simp add: racing_eq)
  have l: "laps racing = [Obj (lapOf 0 5000 True)]" by (simp add: racing_eq)
  have a: "safe_integer 1234" and b: "safe_integer 40" and c: "safe_integer (1234 + 40)"
    by (simp_all add: safe_integer_def)
  show ?thesis
    using undo_restores [OF r t a b c, of False] r t l a b c
    by (auto simp: spread_def length_capture)
qed

text \<open>
  C7. On an empty lap array the undo does not leave the session as it is: the updater
  reads \<^verbatim>\<open>lastLap.time\<close> of \<^verbatim>\<open>undefined\<close> and throws a TypeError. So it does in the
  session that has just been started, where the Undo button is enabled.
\<close>

theorem undo_empty_throws:
  "undoFalseFinishHandler (s\<lparr>laps := []\<rparr>) = Inl TypeError \<and>
   lapTimerIsRunning (raceHandler (raceStartedHandler ''racer'' initial)) \<and>
   undoFalseFinishHandler (raceHandler (raceStartedHandler ''racer'' initial)) = Inl TypeError"
  by (simp add: undoFalseFinishHandler_def spread_def raceHandler_def raceStartedHandler_def
      initial_def startLapTimer_def)

section \<open>Ending the session\<close>

text \<open>
  C4. Submitting or abandoning the race clears the racer, the laps and the stopwatch,
  halts the stopwatch and leaves the session awaiting a racer, but the reset counter
  keeps its value: \<^verbatim>\<open>resetRace\<close> does not call \<^verbatim>\<open>resetCarResetCounter\<close>. After two
  car resets in the lap under way, the counter is still 2 when the session has ended.
\<close>

theorem end_session_keeps_resets:
  "carResetCounter (submitRaceHandler s) = carResetCounter s \<and>
   carResetCounter (abandonRaceHandler s) = carResetCounter s \<and>
   carResetCounter (submitRaceHandler paused) = 2 \<and>
   username (submitRaceHandler s) = None \<and>
   laps (submitRaceHandler s) = [] \<and>
   timeInMilliseconds (submitRaceHandler s) = Number 0 \<and>
   \<not> lapTimerIsRunning (submitRaceHandler s) \<and>
   phase_of (submitRaceHandler s) = AwaitingRacer"
  by (simp add: submitRaceHandler_def abandonRaceHandler_def resetRace_def Let_def
      pauseLapTimer_def resetLapTimer_def phase_of_def paused_def raceHandler_def
      raceStartedHandler_def incrementCarResetCounter_def startLapTimer_def initial_def)

section \<open>Capturing a lap outside a race\<close>

text \<open>
  C8, as stated, fails: in the paused session, which has no lap, the handler appends a
  lap, for a valid capture and for a DNF.
\<close>

theorem capture_while_paused_counterexample:
  "phase_of paused = Paused \<and> \<not> lapTimerIsRunning paused \<and> length (laps paused) = 0 \<and>
   length (laps (captureNewLapHandler True paused)) = 1 \<and>
   length (laps (captureNewLapHandler False paused)) = 1"
  by (simp add: paused_def phase_of_def captureNewLapHandler_def Let_def spread_def
      resetLapTimer_def resetCarResetCounter_def raceHandler_def pauseLapTimer_def
      raceStartedHandler_def incrementCarResetCounter_def startLapTimer_def initial_def)

text \<open>
  C8, amended. A capture outside a race is refused by the buttons only: while the
  stopwatch does not run, a click on Capture Lap or on DNF leaves the session as it is.
  The handler itself has no guard: called in that state, it appends one lap.
\<close>

theorem capture_gated_by_buttons:
  assumes "\<not> lapTimerIsRunning s"
  shows "clickCaptureLap s = s \<and> clickDNF s = s \<and>
         length (laps (captureNewLapHandler v s)) = length (laps s) + 1"
  using assms by (simp add: clickCaptureLap_def clickDNF_def length_capture)

theorem capture_gated_by_buttons_witness:
  "\<not> lapTimerIsRunning paused \<and> clickCaptureLap paused = paused \<and> clickDNF paused = paused \<and>
   length (laps (captureNewLapHandler True paused)) = length (laps paused) + 1"
proof -
  have h: "\<not> lapTimerIsRunning paused"
    by (simp add: paused_def raceHandler_def pauseLapTimer_def
      raceStartedHandler_def incrementCarResetCounter_def startLapTimer_def initial_def)
  show ?thesis using h capture_gated_by_buttons [OF h, of True] by simp
qed

section \<open>Toggling the validity of a lap that does not exist\<close>

lemma laps_action:
  "length (laps s) \<le> i \<Longrightarrow>
   laps (actionHandler i s) =
     spread (laps s) @ replicate (i - length (laps s)) Hole @
       [Obj (no_properties\<lparr>isValid := Bool True\<rparr>)]"
  by (simp add: actionHandler_def Let_def index_def assign_def spread_def spread_object_def
      js_not_def no_properties_def)

text \<open>
  C10. For an index \<open>i\<close> at or past the end of the lap array, the toggle changes the
  array: it is then \<open>i + 1\<close> long, and at index \<open>i\<close> it holds an object whose only
  property is \<^verbatim>\<open>isValid\<close>, which is true. The ids are no longer dense.
\<close>

theorem toggle_out_of_range:
  assumes "length (laps s) \<le> i"
  shows "laps (actionHandler i s) \<noteq> laps s \<and>
         length (laps (actionHandler i s)) = i + 1 \<and>
         laps (actionHandler i s) ! i =
           Obj \<lparr>lap_id = Undefined, time = Undefined, resets = Undefined,
                crashes = Undefined, isValid = Bool True\<rparr> \<and>
         \<not> dense (laps (actionHandler i s))"
proof -
  let ?ls = "laps (actionHandler i s)"
  have len: "length ?ls = i + 1"
    using assms by (simp add: laps_action spread_def)
  have nth: "?ls ! i = Obj (no_properties\<lparr>isValid := Bool True\<rparr>)"
    using assms by (simp add: laps_action nth_append spread_def)
  have "\<not> dense ?ls"
  proof
    assume "dense ?ls"
    then obtain l where "?ls ! i = Obj l" "lap_id l = Number (int i)"
      using len by (auto simp: dense_iff)
    then show False using nth by (auto simp: no_properties_def)
  qed
  moreover have "?ls \<noteq> laps s" using len assms by auto
  ultimately show ?thesis using len nth by (simp add: no_properties_def)
qed

theorem toggle_out_of_range_witness:
  "length (laps initial) \<le> 2 \<and>
   laps (actionHandler 2 initial) =
     [Hole, Hole, Obj \<lparr>lap_id = Undefined, time = Undefined, resets = Undefined,
                crashes = Undefined, isValid = Bool True\<rparr>] \<and>
   \<not> dense (laps (actionHandler 2 initial))"
proof -
  have h: "length (laps initial) \<le> 2" by (simp add: initial_def)
  have "laps (actionHandler 2 initial) =
     [Hole, Hole, Obj \<lparr>lap_id = Undefined, time = Undefined, resets = Undefined,
                crashes = Undefined, isValid = Bool True\<rparr>]"
    by (simp add: actionHandler_def Let_def index_def assign_def spread_def spread_object_def
      js_not_def no_properties_def initial_def numeral_2_eq_2)
  then show ?thesis using h toggle_out_of_range [OF h] by simp
qed

section \<open>The status poll\<close>

lemmas uploader_defs =
  uploadClicked_def uploadModelToCar_def componentDidMount_def constructed_def setInterval_def
  clearInterval_def statusRequest_def statusSettled_def tick_def timerFires_def
  closeResultClicked_def refreshClicked_def Let_def

lemma polling_eq:
  "polling =
     \<lparr>openModal = False, resultOpen = True, result = Text ''cmd-1'',
      CurrentInstanceId = ''i-01'', CommandId = Text ''cmd-1'',
      uploadStatus = Text ''InProgress'', count = 0, delay = 1000, interval = Some 0,
      timers = [0], nextTimer = Suc 0, pending = [], queries = 0\<rparr>"
  by (simp add: polling_def aCar_def aModel_def uploader_defs)

text \<open>Once no timer is live and no response is to come, time changes nothing.\<close>

lemma poll_stopped: "timers u = [] \<Longrightarrow> poll n [] u = u"
  by (induction n) simp_all

lemma poll_3:
  "poll 3 responses polling =
     \<lparr>openModal = False, resultOpen = True, result = Text ''Success'',
      CurrentInstanceId = ''i-01'', CommandId = Text ''cmd-1'',
      uploadStatus = Text ''Success'', count = 3, delay = 1000, interval = Some 0,
      timers = [0], nextTimer = Suc 0, pending = [], queries = 3\<rparr>"
  by (simp add: polling_eq responses_def numeral_3_eq_3 uploader_defs)

lemma poll_4:
  "poll (Suc (Suc (Suc (Suc k)))) responses polling =
     \<lparr>openModal = False, resultOpen = True, result = Text ''Success'',
      CurrentInstanceId = ''i-01'', CommandId = Text ''cmd-1'',
      uploadStatus = Text ''Success'', count = 4, delay = 1000, interval = Some 0,
      timers = [], nextTimer = Suc 0, pending = [(''i-01'', Text ''cmd-1'')],
      queries = 4\<rparr>"
  by (simp add: polling_eq responses_def uploader_defs poll_stopped)

text \<open>
  C5. With the responses InProgress, InProgress, Success to the first three status
  requests, the poll does not stop after three requests. After three periods it has
  sent three, the status shown is Success, and the timer is still live: \<^verbatim>\<open>tick\<close>
  tests the status before the response to its own request has come. The fourth period
  sends a fourth request and only then clears the timer; from then on the number stays
  at four. A Refresh after that sends one more request and starts no timer.
\<close>

theorem poll_issues_four_queries:
  "queries (poll 3 responses polling) = 3 \<and>
   uploadStatus (poll 3 responses polling) = Text ''Success'' \<and>
   timers (poll 3 responses polling) = [0] \<and>
   queries (poll 4 responses polling) = 4 \<and>
   timers (poll 4 responses polling) = [] \<and>
   queries (poll (4 + k) responses polling) = 4 \<and>
   queries (refreshClicked (poll (4 + k) responses polling)) = 5 \<and>
   timers (refreshClicked (poll (4 + k) responses polling)) = []"
proof -
  have "4 + k = Suc (Suc (Suc (Suc k)))" by simp
  moreover have "(4::nat) = Suc (Suc (Suc (Suc 0)))" by simp
  ultimately show ?thesis
    by (simp only: poll_3 poll_4) (simp add: refreshClicked_def statusRequest_def)
qed

text \<open>
  C6, as stated, fails: the timer fires once, so that a status request is in flight,
  and the operator closes the result view. The view is empty and no timer is live; when
  the request then resolves with Success, the result shown and the status are Success.
\<close>

theorem late_response_counterexample:
  "pending (closeResultClicked (timerFires 0 polling)) = [(''i-01'', Text ''cmd-1'')] \<and>
   timers (closeResultClicked (timerFires 0 polling)) = [] \<and>
   result (closeResultClicked (timerFires 0 polling)) = Text [] \<and>
   uploadStatus (closeResultClicked (timerFires 0 polling)) = Text ''InProgress'' \<and>
   result (statusSettled (Inr (Text ''Success'')) (closeResultClicked (timerFires 0 polling)))
     = Text ''Success'' \<and>
   uploadStatus (statusSettled (Inr (Text ''Success'')) (closeResultClicked (timerFires 0 polling)))
     = Text ''Success''"
  by (simp add: polling_eq uploader_defs)

text \<open>
  C6, amended. The Close button of the result view clears the timer whose handle is in
  \<^verbatim>\<open>this.interval\<close>: that timer is no longer live, its callback runs no more and
  sends no request. A status request in flight is not cancelled: when it resolves with
  a response \<open>r\<close>, the result shown and the status become \<open>r\<close>.
\<close>

theorem close_clears_timer_only:
  assumes "interval u = Some h"
  shows "h \<notin> set (timers (closeResultClicked u)) \<and>
         timerFires h (closeResultClicked u) = closeResultClicked u \<and>
         queries (timerFires h (closeResultClicked u)) = queries u \<and>
         (pending u \<noteq> [] \<longrightarrow>
            result (statusSettled (Inr r) (closeResultClicked u)) = r \<and>
            uploadStatus (statusSettled (Inr r) (closeResultClicked u)) = r)"
  using assms
  by (auto simp: closeResultClicked_def clearInterval_def timerFires_def statusSettled_def
      Let_def split: list.splits)

theorem close_clears_timer_only_witness:
  "interval (timerFires 0 polling) = Some 0 \<and>
   pending (timerFires 0 polling) \<noteq> [] \<and>
   0 \<notin> set (timers (closeResultClicked (timerFires 0 polling))) \<and>
   result (statusSettled (Inr (Text ''Failed'')) (closeResultClicked (timerFires 0 polling)))
     = Text ''Failed''"
proof -
  have h: "interval (timerFires 0 polling) = Some 0"
    by (simp add: polling_eq uploader_defs)
  have p: "pending (timerFires 0 polling) \<noteq> []"
    by (simp add: polling_eq uploader_defs)
  show ?thesis
    using h p close_clears_timer_only [OF h, of "Text ''Failed''"] by simp
qed

section \<open>Starting an upload\<close>

text \<open>
  C9, as stated, fails: when the remote call returns without a command id, the upload
  does not fail. The command id stored is the missing response, the status is
  InProgress, a timer is live, and its first tick sends a status request.
\<close>

theorem upload_without_command_id_counterexample:
  "fst (uploadModelToCar aCar aModel (Inr Missing) constructed) = Inr Missing \<and>
   CommandId (snd (uploadModelToCar aCar aModel (Inr Missing) constructed)) = Missing \<and>
   uploadStatus (snd (uploadModelToCar aCar aModel (Inr Missing) constructed))
     = Text ''InProgress'' \<and>
   timers (snd (uploadModelToCar aCar aModel (Inr Missing) constructed)) = [0] \<and>
   queries (timerFires 0 (snd (uploadModelToCar aCar aModel (Inr Missing) constructed))) = 1"
  by (simp add: aCar_def aModel_def uploader_defs)

text \<open>
  C9, amended. The upload fails exactly when the remote call errors: it then rejects
  with that error, changes no state and starts no timer. Whenever the remote call
  returns a response \<open>r\<close>, with a command id or not, the upload returns \<open>r\<close>, the
  command id is \<open>r\<close>, the status is InProgress and a new timer is live, whose tick
  sends a status request for the car and \<open>r\<close>.
\<close>

theorem upload_initiation:
  "uploadModelToCar c m (Inl e) u = (Inl e, u) \<and>
   fst (uploadModelToCar c m (Inr r) u) = Inr r \<and>
   CommandId (snd (uploadModelToCar c m (Inr r) u)) = r \<and>
   uploadStatus (snd (uploadModelToCar c m (Inr r) u)) = Text ''InProgress'' \<and>
   interval (snd (uploadModelToCar c m (Inr r) u)) = Some (nextTimer u) \<and>
   timers (snd (uploadModelToCar c m (Inr r) u)) = timers u @ [nextTimer u] \<and>
   pending (timerFires (nextTimer u) (snd (uploadModelToCar c m (Inr r) u)))
     = pending u @ [(InstanceId c, r)]"
  by (simp add: uploader_defs)

end
